theory Spec2Isabelle
  imports Main
begin

section \<open>The spellcheck endpoint of \<open>spellcheck_server/app.py\<close>\<close>

text \<open>
  The repository is one request handler, \<open>check_spelling\<close>, behind \<open>POST /check\<close>:
  it hands the form field \<open>text\<close> to \<open>spell_checker.check\<close> of an external library,
  reads the attributes \<open>checked\<close> and \<open>errors\<close> of what comes back and wraps them in a
  \<open>JSONResponse\<close>; an \<open>except Exception\<close> around all of that answers with status 500
  and the original text.

  The handler is embedded as a function of the capability it calls. Python values,
  exceptions, attribute access and the construction of a \<open>JSONResponse\<close> are modelled
  as far as the handler can observe them.
\<close>

subsection \<open>Python values and exceptions\<close>

text \<open>
  A value the capability may hand back, or that is placed in a response body.
  \<open>PyObject cls attrs\<close> is an instance of a class named \<open>cls\<close> with the instance
  attributes \<open>attrs\<close> (the library's result type is such a class, with attributes
  \<open>checked\<close> and \<open>errors\<close> among others). \<open>PyDict\<close> is a dict with string keys, in
  insertion order. A \<open>string\<close> stands for a Python \<open>str\<close>; the handler never looks
  inside one.
\<close>

datatype pyval =
    PyNone
  | PyBool bool
  | PyInt int
  | PyStr string
  | PyDict "(string \<times> pyval) list"
  | PyObject string "(string \<times> pyval) list"

text \<open>
  A raised exception, as far as the handler can tell exceptions apart: the name of its
  class, whether it is an instance of \<open>Exception\<close> (\<open>SystemExit\<close>,
  \<open>KeyboardInterrupt\<close> and \<open>GeneratorExit\<close> derive from \<open>BaseException\<close> only, and
  \<open>except Exception\<close> lets them pass), and the string that \<open>str(e)\<close> returns.
\<close>

datatype exn = Exn (exn_class: string) (isinstance_Exception: bool) (py_str: string)

definition quoted :: "string \<Rightarrow> string" where
  "quoted s = [CHR 0x27] @ s @ [CHR 0x27]"

definition AttributeError :: "string \<Rightarrow> string \<Rightarrow> exn" where
  "AttributeError cls name =
     Exn ''AttributeError'' True (quoted cls @ '' object has no attribute '' @ quoted name)"

definition TypeError :: "string \<Rightarrow> exn" where
  "TypeError msg = Exn ''TypeError'' True msg"

fun type_name :: "pyval \<Rightarrow> string" where
  "type_name PyNone = ''NoneType''"
| "type_name (PyBool b) = ''bool''"
| "type_name (PyInt i) = ''int''"
| "type_name (PyStr s) = ''str''"
| "type_name (PyDict kvs) = ''dict''"
| "type_name (PyObject cls attrs) = cls"

text \<open>
  Attribute access \<open>v.name\<close>, for the two names the handler reads (\<open>checked\<close> and
  \<open>errors\<close>, which none of the built-in types above defines): an object yields the
  attribute if it has it, everything else raises \<open>AttributeError\<close>.
\<close>

fun getattr :: "pyval \<Rightarrow> string \<Rightarrow> exn + pyval" where
  "getattr (PyObject cls attrs) name =
     (case map_of attrs name of
        Some v \<Rightarrow> Inr v
      | None \<Rightarrow> Inl (AttributeError cls name))"
| "getattr v name = Inl (AttributeError (type_name v) name)"

subsection \<open>Responses\<close>

text \<open>
  \<open>JSONResponse(content, status_code=200)\<close> renders its content with \<open>json.dumps\<close>
  in the constructor, so a value that JSON cannot encode raises \<open>TypeError\<close> right
  there. \<open>json_error\<close> walks the content in the encoder's order and gives the error of the
  first such value, if any.
\<close>

fun json_error :: "pyval \<Rightarrow> exn option"
  and json_error_items :: "(string \<times> pyval) list \<Rightarrow> exn option" where
  "json_error PyNone = None"
| "json_error (PyBool b) = None"
| "json_error (PyInt i) = None"
| "json_error (PyStr s) = None"
| "json_error (PyDict kvs) = json_error_items kvs"
| "json_error (PyObject cls attrs) =
     Some (TypeError (''Object of type '' @ cls @ '' is not JSON serializable''))"
| "json_error_items [] = None"
| "json_error_items (kv # kvs) =
     (case json_error (snd kv) of
        Some e \<Rightarrow> Some e
      | None \<Rightarrow> json_error_items kvs)"

record response =
  status_code :: nat
  body :: pyval

definition JSONResponse :: "pyval \<Rightarrow> nat \<Rightarrow> exn + response" where
  "JSONResponse content code =
     (case json_error content of
        Some e \<Rightarrow> Inl e
      | None \<Rightarrow> Inr \<lparr>status_code = code, body = content\<rparr>)"



subsection \<open>The handler\<close>

text \<open>
  The external capability \<open>spell_checker.check\<close>: called with a text in a state of the
  outside world (the remote service, the network), it returns a value or raises, and
  leaves the world in a new state.
\<close>

type_synonym 'w spell_checker = "string \<Rightarrow> 'w \<Rightarrow> (exn + pyval) \<times> 'w"

text \<open>
  The body of the \<open>try\<close> (lines 17 to 28), given the outcome of the call on line 17:
  each attribute access and the construction of the response may raise in turn.
\<close>

definition try_block :: "string \<Rightarrow> exn + pyval \<Rightarrow> exn + response" where
  "try_block text called =
     (case called of
        Inl e \<Rightarrow> Inl e
      | Inr result \<Rightarrow>
          (case getattr result ''checked'' of
             Inl e \<Rightarrow> Inl e
           | Inr corrected \<Rightarrow>
               (case getattr result ''errors'' of
                  Inl e \<Rightarrow> Inl e
                | Inr errors \<Rightarrow>
                    JSONResponse
                      (PyDict
                        [(''corrected'', corrected),
                         (''original'', PyStr text),
                         (''result'', PyDict [(''errata_count'', errors)])])
                      200)))"

text \<open>
  The handler of \<open>except Exception as e\<close> (lines 29 to 38). An exception that is not
  an \<open>Exception\<close> is not caught and leaves the function.
\<close>

definition except_Exception :: "string \<Rightarrow> exn \<Rightarrow> exn + response" where
  "except_Exception text e =
     (if isinstance_Exception e
      then JSONResponse
             (PyDict
               [(''corrected'', PyStr text),
                (''original'', PyStr text),
                (''error'', PyStr (py_str e))])
             500
      else Inl e)"

text \<open>
  \<open>check_spelling\<close>: \<open>Inr\<close> is the response returned to the framework, \<open>Inl\<close> an
  exception that leaves the handler; the second component is the state of the outside
  world after the one call.
\<close>

definition check_spelling :: "'w spell_checker \<Rightarrow> string \<Rightarrow> 'w \<Rightarrow> (exn + response) \<times> 'w" where
  "check_spelling check text w =
     (case check text w of
        (called, w') \<Rightarrow>
          (case try_block text called of
             Inr resp \<Rightarrow> (Inr resp, w')
           | Inl e \<Rightarrow> (except_Exception text e, w')))"

subsection \<open>Capabilities to run the handler on\<close>

text \<open>
  The library's result type, reduced to the two attributes the handler reads, and
  stand-ins for the capability: one that returns a given value, one that raises a given
  exception, and one that keeps a log of the arguments it is called with around any
  behaviour \<open>f\<close>.
\<close>

definition Checked :: "string \<Rightarrow> int \<Rightarrow> pyval" where
  "Checked c n = PyObject ''Checked'' [(''checked'', PyStr c), (''errors'', PyInt n)]"


definition raising :: "exn \<Rightarrow> 'w spell_checker" where
  "raising e text w = (Inl e, w)"

definition recording_check :: "(string \<Rightarrow> exn + pyval) \<Rightarrow> string list spell_checker" where
  "recording_check f text log = (f text, log @ [text])"

definition echo :: "string \<Rightarrow> exn + pyval" where
  "echo text = Inr (Checked text 0)"


definition SystemExit :: exn where
  "SystemExit = Exn ''SystemExit'' False []"

section \<open>Properties\<close>

subsection \<open>What can be raised inside the \<open>try\<close>\<close>





lemma try_block_reraises:
  "try_block text (Inl e) = Inl e"
  by (simp add: try_block_def)


subsection \<open>The two responses\<close>




lemma except_Exception_passes:
  "\<not> isinstance_Exception e \<Longrightarrow> except_Exception text e = Inl e"
  by (simp add: except_Exception_def)

subsection \<open>The handler in terms of the call's outcome\<close>

lemma fst_check_spelling:
  "fst (check_spelling check text w) =
     (case try_block text (fst (check text w)) of
        Inr resp \<Rightarrow> Inr resp
      | Inl e \<Rightarrow> except_Exception text e)"
  by (simp add: check_spelling_def split: prod.splits sum.splits)

lemma snd_check_spelling:
  "snd (check_spelling check text w) = snd (check text w)"
  by (simp add: check_spelling_def split: prod.splits sum.splits)




text \<open>
  An exception that is not an \<open>Exception\<close> is outside \<open>except Exception\<close>: raised by
  the capability, it leaves the handler.
\<close>

lemma non_Exception_propagates:
  assumes "fst (check text w) = Inl e" and "\<not> isinstance_Exception e"
  shows "fst (check_spelling check text w) = Inl e"
  using assms by (simp add: fst_check_spelling try_block_reraises except_Exception_passes)

lemma SystemExit_propagates:
  "fst (check_spelling (raising SystemExit) ''abc'' ()) = Inl SystemExit"
  by (simp add: non_Exception_propagates raising_def SystemExit_def)

subsection \<open>The success response\<close>








subsection \<open>The degraded response\<close>








subsection \<open>Every outcome\<close>





subsection \<open>The call\<close>

text \<open>
  C5. For every text, the handler calls the capability once, with the submitted text
  as it is: the outside world after the handler is the world after that one call, and
  a capability that logs its arguments has logged exactly the submitted text.
\<close>

theorem text_passed_unmodified:
  "snd (check_spelling check text w) = snd (check text w)
   \<and> snd (check_spelling (recording_check f) text log) = log @ [text]"
  by (simp add: snd_check_spelling recording_check_def)

text \<open>
  C7. Two runs of the handler on the same text, in any two states of the outside
  world in which the capability behaves the same on that text (the same result or the
  same raised error), give the same outcome: the same status and the same body.
\<close>

theorem same_outcome_same_response:
  assumes "fst (check text w1) = fst (check text w2)"
  shows "fst (check_spelling check text w1) = fst (check_spelling check text w2)"
  using assms by (simp add: fst_check_spelling)

theorem same_outcome_same_response_witness:
  "fst (recording_check echo ''abc'' []) = fst (recording_check echo ''abc'' [''abc''])
   \<and> fst (check_spelling (recording_check echo) ''abc'' [])
       = fst (check_spelling (recording_check echo) ''abc'' [''abc''])"
  using same_outcome_same_response [of "recording_check echo" "''abc''" "[]" "[''abc'']"]
  by (simp add: recording_check_def)

end
